theory Spec2Isabelle
  imports Complex_Main
begin

section \<open>JSON values, exceptions and responses\<close>

text \<open>
  The handlers of \<^verbatim>\<open>app.py\<close> read \<^verbatim>\<open>request.json\<close> and answer with
  \<^verbatim>\<open>jsonify(...)\<close> and a status code. A JSON value is modelled by the datatype below,
  as the text of the body has it: \<open>JInt\<close> is a number written as an integer, which the
  parser reads as a Python int; \<open>JFloat r\<close> is a number written with a fraction or an
  exponent, of exact value \<open>r\<close>, which the parser rounds to a float; \<open>JSpecial\<close> is one
  of the literals \<^verbatim>\<open>NaN\<close>, \<^verbatim>\<open>Infinity\<close>, \<^verbatim>\<open>-Infinity\<close> that Python's parser accepts.
  A JSON object is the list of the items of the parsed dict and is read with \<open>map_of\<close>;
  the order of its keys carries no meaning. A Python str is a list of characters, one
  for each code point; the characters from 128 on stand for the code points beyond ASCII.
\<close>

datatype special = NaN | Infinity | NegInfinity

datatype json =
    JNull
  | JBool bool
  | JInt int
  | JFloat rat
  | JSpecial special
  | JStr string
  | JArr "json list"
  | JObj "(string \<times> json) list"

text \<open>
  The Python exceptions that can leave a handler. \<^verbatim>\<open>ValidationError\<close> is not among
  them: every \<^verbatim>\<open>load\<close> of the file sits in a \<^verbatim>\<open>try\<close> that catches it, and it
  is the \<open>Invalid\<close> result of \<open>load\<close> below.
\<close>

datatype exn = TypeError | KeyError | AttributeError | IntegrityError | OverflowError

text \<open>
  What a request produces: the pair returned by the handler (\<open>Reply status body\<close>), or
  an exception that no \<^verbatim>\<open>except\<close> clause of the handler catches, which Flask
  answers with status 500.
\<close>

datatype outcome = Reply nat json | Unhandled exn

fun status :: "outcome \<Rightarrow> nat" where
  "status (Reply s b) = s"
| "status (Unhandled e) = 500"

fun json_keys :: "json \<Rightarrow> string list" where
  "json_keys (JObj kvs) = map fst kvs"
| "json_keys v = []"

definition message :: "string \<Rightarrow> json" where
  "message text = JObj [(''message'', JStr text)]"

section \<open>Models (lines 38-64)\<close>

record User =
  user_id :: int
  user_name :: string
  user_address :: string
  user_email :: string

record Product =
  product_id :: int
  product_name :: string
  product_price :: rat

text \<open>The tables \<^verbatim>\<open>users\<close> and \<^verbatim>\<open>products\<close> of the SQLite database.\<close>

record store =
  users :: "User list"
  products :: "Product list"

section \<open>The Python runtime\<close>

text \<open>
  A Python float is a double: a rational number, or one of the three special values.
\<close>

datatype pyfloat = Finite rat | NotFinite special

text \<open>
  Three functions of Python and its libraries are not modelled and are parameters of
  the schemas and of the handlers that load a payload: the answer of
  \<^verbatim>\<open>validate.Email\<close> on a str that holds a character beyond ASCII (it depends on the
  Unicode character classes and on the IDNA encoding), and the builtins \<^verbatim>\<open>int(s)\<close>
  and \<^verbatim>\<open>float(s)\<close> on a str (\<open>None\<close> is their \<^verbatim>\<open>ValueError\<close>).
\<close>

record pylib =
  email_unicode :: "string \<Rightarrow> bool"
  int_of_str :: "string \<Rightarrow> int option"
  float_of_str :: "string \<Rightarrow> pyfloat option"

text \<open>
  The conversion of a number to a double, as the JSON parser and \<^verbatim>\<open>float(i)\<close> do it:
  round to nearest with 53 bits, ties to even, subnormal below \<open>2\<^sup>-\<^sup>1\<^sup>0\<^sup>2\<^sup>2\<close>, and no
  finite result from \<open>2\<^sup>1\<^sup>0\<^sup>2\<^sup>4\<close> on.
\<close>

fun bit_length :: "nat \<Rightarrow> nat" where
  "bit_length n = (if n = 0 then 0 else Suc (bit_length (n div 2)))"

definition pow2 :: "int \<Rightarrow> rat" where
  "pow2 k = (if 0 \<le> k then 2 ^ nat k else 1 / 2 ^ nat (- k))"

text \<open>For \<open>0 < a\<close>, the exponent \<open>e\<close> with \<open>2\<^sup>e \<le> a < 2\<^sup>e\<^sup>+\<^sup>1\<close>.\<close>

definition floor_log2 :: "rat \<Rightarrow> int" where
  "floor_log2 a =
     (let e = int (bit_length (nat (fst (quotient_of a)))) -
              int (bit_length (nat (snd (quotient_of a))))
      in if pow2 e \<le> a then e else e - 1)"

definition round_half_even :: "rat \<Rightarrow> int" where
  "round_half_even x =
     (let f = \<lfloor>x\<rfloor>; d = x - of_int f
      in if d < 1 / 2 then f
         else if 1 / 2 < d then f + 1
         else if even f then f else f + 1)"

definition round_double :: "rat \<Rightarrow> pyfloat" where
  "round_double r =
     (if r = 0 then Finite 0
      else (let a = \<bar>r\<bar>;
                e = max (floor_log2 a) (- 1022);
                m = round_half_even (a / pow2 (e - 52))
            in if 1024 \<le> e \<or> (e = 1023 \<and> m = 2 ^ 53)
               then NotFinite (if 0 < r then Infinity else NegInfinity)
               else Finite ((if 0 < r then 1 else - 1) * of_int m * pow2 (e - 52))))"

text \<open>The Python literal \<^verbatim>\<open>0.01\<close> of line 94: the double nearest to 1/100.\<close>

definition min_price :: rat where
  "min_price = 5764607523034235 / 576460752303423488"

section \<open>Field validation (marshmallow)\<close>

text \<open>
  The result of deserialising one field of a payload: the key is absent and nothing is
  stored for it, a value, or the list of messages of a \<^verbatim>\<open>ValidationError\<close>.
\<close>

datatype 'a field_result = Missing | Value 'a | Errors "string list"

text \<open>
  \<^verbatim>\<open>Schema._deserialize\<close> and \<^verbatim>\<open>Field.deserialize\<close>: a key absent from the
  payload is skipped under \<^verbatim>\<open>partial=True\<close>; otherwise a required field reports
  it, and a field that is not required stores nothing. \<^verbatim>\<open>null\<close> is refused
  (no field of the file allows it), any other value goes to the field's converter.
\<close>

definition deserialize_field ::
    "bool \<Rightarrow> bool \<Rightarrow> (json \<Rightarrow> string list + 'a) \<Rightarrow> json option \<Rightarrow> 'a field_result" where
  "deserialize_field required partial conv raw =
     (case raw of
        None \<Rightarrow>
          if partial then Missing
          else if required then Errors [''Missing data for required field.'']
          else Missing
      | Some JNull \<Rightarrow> Errors [''Field may not be null.'']
      | Some v \<Rightarrow> (case conv v of Inl msgs \<Rightarrow> Errors msgs | Inr x \<Rightarrow> Value x))"

text \<open>
  \<^verbatim>\<open>fields.String(validate=validate.Length(min=lo, max=hi))\<close>; the message is the
  one \<^verbatim>\<open>Length\<close> formats for the two bounds.
\<close>

definition string_field :: "nat \<Rightarrow> nat \<Rightarrow> string \<Rightarrow> json \<Rightarrow> string list + string" where
  "string_field lo hi msg v =
     (case v of
        JStr s \<Rightarrow> if length s < lo \<or> hi < length s then Inl [msg] else Inr s
      | _ \<Rightarrow> Inl [''Not a valid string.''])"

subsection \<open>\<^verbatim>\<open>validate.Email\<close>\<close>

definition ord :: "char \<Rightarrow> nat" where
  "ord c = of_char c"

definition in_range :: "nat \<Rightarrow> nat \<Rightarrow> char \<Rightarrow> bool" where
  "in_range lo hi c \<longleftrightarrow> lo \<le> ord c \<and> ord c \<le> hi"

definition is_ascii :: "char \<Rightarrow> bool" where
  "is_ascii c \<longleftrightarrow> ord c < 128"

definition is_digit :: "char \<Rightarrow> bool" where
  "is_digit c \<longleftrightarrow> in_range 48 57 c"

definition is_alnum :: "char \<Rightarrow> bool" where
  "is_alnum c \<longleftrightarrow> in_range 97 122 c \<or> in_range 65 90 c \<or> is_digit c"

fun split_on :: "char \<Rightarrow> string \<Rightarrow> string list" where
  "split_on c [] = [[]]"
| "split_on c (x # xs) =
     (case split_on c xs of
        [] \<Rightarrow> [[x]]
      | p # ps \<Rightarrow> if x = c then [] # p # ps else (x # p) # ps)"

text \<open>
  The user part, first form (\<^verbatim>\<open>USER_REGEX\<close>, dot-atom): atoms separated by single
  dots, each a non-empty run of word characters and of
  \<^verbatim>\<open>- ! # $ % & ' * + / = ? ^ ` { } | ~\<close>.
\<close>

definition is_atom_char :: "char \<Rightarrow> bool" where
  "is_atom_char c \<longleftrightarrow>
     is_alnum c \<or> c = CHR ''_'' \<or> c \<in> set ''-!#$%&*+/=?^`{}|~'' \<or> c = CHR 0x27"

definition is_dot_atom :: "string \<Rightarrow> bool" where
  "is_dot_atom s \<longleftrightarrow>
     list_all (\<lambda>a. a \<noteq> [] \<and> list_all is_atom_char a) (split_on CHR ''.'' s)"

text \<open>
  The user part, second form (quoted-string): between two double quotes, characters of
  the class \<^verbatim>\<open>[\001-\010\013\014\016-\037!#-\[\]-\177]\<close>, and backslashes each
  followed by a character of \<^verbatim>\<open>[\001-\011\013\014\016-\177]\<close>.
\<close>

definition is_qtext :: "char \<Rightarrow> bool" where
  "is_qtext c \<longleftrightarrow>
     in_range 1 8 c \<or> in_range 11 12 c \<or> in_range 14 31 c \<or> ord c = 33 \<or>
     in_range 35 91 c \<or> in_range 93 127 c"

definition is_escaped :: "char \<Rightarrow> bool" where
  "is_escaped c \<longleftrightarrow> in_range 1 9 c \<or> in_range 11 12 c \<or> in_range 14 127 c"

fun quoted_rest :: "string \<Rightarrow> bool" where
  "quoted_rest [] = False"
| "quoted_rest [c] = (c = CHR 0x22)"
| "quoted_rest (c # d # cs) =
     (if c = CHR 0x5C then is_escaped d \<and> quoted_rest cs
      else is_qtext c \<and> quoted_rest (d # cs))"

fun is_quoted_string :: "string \<Rightarrow> bool" where
  "is_quoted_string [] = False"
| "is_quoted_string (c # cs) = (c = CHR 0x22 \<and> quoted_rest cs)"

text \<open>
  The domain part (\<^verbatim>\<open>DOMAIN_REGEX\<close>), first form: one label or more, each followed
  by a dot, then a last label of two characters or more. A label has 1 to 63 letters,
  digits and hyphens and neither starts nor ends with a hyphen; the last label has
  letters, digits and hyphens.
\<close>

definition is_label :: "string \<Rightarrow> bool" where
  "is_label l \<longleftrightarrow>
     l \<noteq> [] \<and> length l \<le> 63 \<and> is_alnum (hd l) \<and> is_alnum (last l) \<and>
     list_all (\<lambda>c. is_alnum c \<or> c = CHR ''-'') l"

definition is_tld :: "string \<Rightarrow> bool" where
  "is_tld l \<longleftrightarrow> 2 \<le> length l \<and> list_all (\<lambda>c. is_alnum c \<or> c = CHR ''-'') l"

definition is_hostname :: "string \<Rightarrow> bool" where
  "is_hostname d \<longleftrightarrow>
     (let ls = split_on CHR ''.'' d
      in 2 \<le> length ls \<and> list_all is_label (butlast ls) \<and> is_tld (last ls))"

text \<open>
  The domain part, second form: an IPv4 address in brackets, each of its four numbers
  matching \<^verbatim>\<open>25[0-5]|2[0-4]\d|[0-1]?\d?\d\<close>.
\<close>

fun is_octet :: "string \<Rightarrow> bool" where
  "is_octet [a] = is_digit a"
| "is_octet [a, b] = (is_digit a \<and> is_digit b)"
| "is_octet [a, b, c] =
     ((a = CHR ''0'' \<or> a = CHR ''1'') \<and> is_digit b \<and> is_digit c \<or>
      a = CHR ''2'' \<and> in_range 48 52 b \<and> is_digit c \<or>
      a = CHR ''2'' \<and> b = CHR ''5'' \<and> in_range 48 53 c)"
| "is_octet s = False"

definition is_ip_literal :: "string \<Rightarrow> bool" where
  "is_ip_literal d \<longleftrightarrow>
     2 \<le> length d \<and> hd d = CHR ''['' \<and> last d = CHR '']'' \<and>
     (let os = split_on CHR ''.'' (butlast (tl d))
      in length os = 4 \<and> list_all is_octet os)"

text \<open>
  The validator: the value holds an \<^verbatim>\<open>@\<close> and is split at the last one
  (\<^verbatim>\<open>rsplit("@", 1)\<close>); the user part has one of the two forms; the domain part is
  \<^verbatim>\<open>localhost\<close> or has one of the two forms. For a domain of ASCII characters the
  IDNA encoding that the validator tries next gives the same domain back, or fails. A
  value with a character beyond ASCII is left to the parameter.
\<close>

definition domain_of :: "string \<Rightarrow> string" where
  "domain_of s = rev (takeWhile (\<lambda>c. c \<noteq> CHR ''@'') (rev s))"

definition user_of :: "string \<Rightarrow> string" where
  "user_of s = take (length s - length (domain_of s) - 1) s"

definition is_ascii_email :: "string \<Rightarrow> bool" where
  "is_ascii_email s \<longleftrightarrow>
     CHR ''@'' \<in> set s \<and>
     (is_dot_atom (user_of s) \<or> is_quoted_string (user_of s)) \<and>
     (domain_of s = ''localhost'' \<or> is_hostname (domain_of s) \<or> is_ip_literal (domain_of s))"

definition is_email :: "pylib \<Rightarrow> string \<Rightarrow> bool" where
  "is_email P s = (if list_all is_ascii s then is_ascii_email s else email_unicode P s)"

text \<open>\<^verbatim>\<open>fields.Email\<close>: a string field whose validator is \<^verbatim>\<open>validate.Email\<close>.\<close>

definition email_field :: "pylib \<Rightarrow> json \<Rightarrow> string list + string" where
  "email_field P v =
     (case v of
        JStr s \<Rightarrow> if is_email P s then Inr s else Inl [''Not a valid email address.'']
      | _ \<Rightarrow> Inl [''Not a valid string.''])"

subsection \<open>Numbers\<close>

text \<open>
  \<^verbatim>\<open>fields.Integer()\<close>, the field the auto schema derives from the \<^verbatim>\<open>id\<close> column.
  \<^verbatim>\<open>Number._validated\<close> refuses booleans and calls \<^verbatim>\<open>int(value)\<close>: a float is
  truncated towards zero, \<^verbatim>\<open>TypeError\<close> and \<^verbatim>\<open>ValueError\<close> give "Not a valid
  integer.", \<^verbatim>\<open>OverflowError\<close> (an infinite float) gives "Number too large.".
\<close>

definition trunc :: "rat \<Rightarrow> int" where
  "trunc r = (if 0 \<le> r then \<lfloor>r\<rfloor> else \<lceil>r\<rceil>)"

definition int_of_float :: "pyfloat \<Rightarrow> string list + int" where
  "int_of_float x =
     (case x of
        Finite r \<Rightarrow> Inr (trunc r)
      | NotFinite NaN \<Rightarrow> Inl [''Not a valid integer.'']
      | NotFinite s \<Rightarrow> Inl [''Number too large.''])"

definition integer_field :: "pylib \<Rightarrow> json \<Rightarrow> string list + int" where
  "integer_field P v =
     (case v of
        JInt i \<Rightarrow> Inr i
      | JFloat r \<Rightarrow> int_of_float (round_double r)
      | JSpecial s \<Rightarrow> int_of_float (NotFinite s)
      | JStr s \<Rightarrow>
          (case int_of_str P s of Some i \<Rightarrow> Inr i | None \<Rightarrow> Inl [''Not a valid integer.''])
      | _ \<Rightarrow> Inl [''Not a valid integer.''])"

text \<open>
  \<^verbatim>\<open>fields.Float(validate=validate.Range(min=0.01))\<close> (line 94). \<^verbatim>\<open>float(value)\<close>
  raises \<^verbatim>\<open>OverflowError\<close> on an int beyond the doubles ("Number too large."); a
  float that is not finite is refused next (\<^verbatim>\<open>allow_nan\<close> is off); then \<^verbatim>\<open>Range\<close>
  compares the float with the float \<^verbatim>\<open>0.01\<close>.
\<close>

definition finite_float :: "pyfloat \<Rightarrow> string list + rat" where
  "finite_float x =
     (case x of
        Finite r \<Rightarrow> Inr r
      | NotFinite s \<Rightarrow> Inl [''Special numeric values (nan or infinity) are not permitted.''])"

definition to_float :: "pylib \<Rightarrow> json \<Rightarrow> string list + rat" where
  "to_float P v =
     (case v of
        JInt i \<Rightarrow>
          (case round_double (of_int i) of
             Finite r \<Rightarrow> Inr r
           | NotFinite s \<Rightarrow> Inl [''Number too large.''])
      | JFloat r \<Rightarrow> finite_float (round_double r)
      | JSpecial s \<Rightarrow> finite_float (NotFinite s)
      | JStr s \<Rightarrow>
          (case float_of_str P s of
             Some x \<Rightarrow> finite_float x
           | None \<Rightarrow> Inl [''Not a valid number.''])
      | _ \<Rightarrow> Inl [''Not a valid number.''])"

definition float_field :: "pylib \<Rightarrow> json \<Rightarrow> string list + rat" where
  "float_field P v =
     (case to_float P v of
        Inl msgs \<Rightarrow> Inl msgs
      | Inr r \<Rightarrow>
          if r < min_price then Inl [''Must be greater than or equal to 0.01.'']
          else Inr r)"

section \<open>Schemas (lines 68-103)\<close>

text \<open>
  The \<^verbatim>\<open>Meta\<close> options the schema classes set. \<^verbatim>\<open>load_instance = True\<close>
  (lines 71, 81, 91) makes \<^verbatim>\<open>load\<close> deserialise to an instance of the model class
  instead of a dict of the validated fields.
\<close>

record meta =
  load_instance :: bool
  include_fk :: bool

definition UserSchema_Meta :: meta where
  "UserSchema_Meta = \<lparr>load_instance = True, include_fk = False\<rparr>"

definition ProductSchema_Meta :: meta where
  "ProductSchema_Meta = \<lparr>load_instance = True, include_fk = False\<rparr>"

text \<open>The validated fields of a payload; \<open>None\<close> is a key that is not there.\<close>

record user_fields =
  f_id :: "int option"
  f_name :: "string option"
  f_address :: "string option"
  f_email :: "string option"

record product_fields =
  pf_id :: "int option"
  pf_name :: "string option"
  pf_price :: "rat option"

type_synonym errors = "(string \<times> string list) list"

text \<open>
  What \<^verbatim>\<open>schema.load\<close> gives: a \<^verbatim>\<open>ValidationError\<close> with its messages, another
  exception, or the loaded object, which is a dict or a model instance.
\<close>

datatype 'a loaded = Dict 'a | Instance 'a

datatype 'a load_result = Invalid errors | Raised exn | Loaded "'a loaded"

definition field_errors :: "string \<Rightarrow> 'a field_result \<Rightarrow> errors" where
  "field_errors k r = (case r of Errors ms \<Rightarrow> [(k, ms)] | _ \<Rightarrow> [])"

definition field_value :: "'a field_result \<Rightarrow> 'a option" where
  "field_value r = (case r of Value x \<Rightarrow> Some x | _ \<Rightarrow> None)"

text \<open>
  The schemas keep marshmallow's default \<^verbatim>\<open>unknown = RAISE\<close>: every key of the
  payload that is not a field of the schema is an error.
\<close>

definition unknown_errors :: "string list \<Rightarrow> (string \<times> json) list \<Rightarrow> errors" where
  "unknown_errors known kvs =
     map (\<lambda>k. (k, [''Unknown field.''])) (remdups (filter (\<lambda>k. k \<notin> set known) (map fst kvs)))"

text \<open>
  The \<^verbatim>\<open>post_load\<close> hook of the SQLAlchemy schemas. Without \<^verbatim>\<open>load_instance\<close> the
  validated dict is returned. With it, a payload that carries the primary key is looked
  up in the schema's session, which is the placeholder session here since
  \<^verbatim>\<open>Marshmallow(app)\<close> (line 25) runs before \<^verbatim>\<open>db.init_app(app)\<close> (line 26), and the
  lookup fails; a payload without the primary key is made into a new instance.
\<close>

definition make_instance :: "meta \<Rightarrow> ('a \<Rightarrow> int option) \<Rightarrow> 'a \<Rightarrow> 'a load_result" where
  "make_instance m pk data =
     (if \<not> load_instance m then Loaded (Dict data)
      else case pk data of
             Some i \<Rightarrow> Raised AttributeError
           | None \<Rightarrow> Loaded (Instance data))"

text \<open>
  \<^verbatim>\<open>UserSchema\<close>: the auto schema's \<^verbatim>\<open>id\<close> (an integer, not required, since the
  column is an auto-incremented primary key) and the three declared fields.
\<close>

definition load_user :: "pylib \<Rightarrow> meta \<Rightarrow> bool \<Rightarrow> json \<Rightarrow> user_fields load_result" where
  "load_user P m partial data =
     (case data of
        JObj kvs \<Rightarrow>
          (let raw = map_of kvs;
               r_id = deserialize_field False partial (integer_field P) (raw ''id'');
               r_name = deserialize_field True partial
                          (string_field 1 80 ''Length must be between 1 and 80.'') (raw ''name'');
               r_address = deserialize_field True partial
                          (string_field 1 255 ''Length must be between 1 and 255.'') (raw ''address'');
               r_email = deserialize_field True partial (email_field P) (raw ''email'');
               errs = field_errors ''id'' r_id @ field_errors ''name'' r_name @
                      field_errors ''address'' r_address @ field_errors ''email'' r_email @
                      unknown_errors [''id'', ''name'', ''address'', ''email''] kvs
           in if errs \<noteq> [] then Invalid errs
              else make_instance m f_id
                     \<lparr>f_id = field_value r_id, f_name = field_value r_name,
                      f_address = field_value r_address, f_email = field_value r_email\<rparr>)
      | _ \<Rightarrow> Invalid [(''_schema'', [''Invalid input type.''])])"

text \<open>\<^verbatim>\<open>ProductSchema\<close>: \<^verbatim>\<open>id\<close>, \<^verbatim>\<open>name\<close> and \<^verbatim>\<open>price\<close>.\<close>

definition load_product :: "pylib \<Rightarrow> meta \<Rightarrow> bool \<Rightarrow> json \<Rightarrow> product_fields load_result" where
  "load_product P m partial data =
     (case data of
        JObj kvs \<Rightarrow>
          (let raw = map_of kvs;
               r_id = deserialize_field False partial (integer_field P) (raw ''id'');
               r_name = deserialize_field True partial
                          (string_field 1 120 ''Length must be between 1 and 120.'') (raw ''name'');
               r_price = deserialize_field True partial (float_field P) (raw ''price'');
               errs = field_errors ''id'' r_id @ field_errors ''name'' r_name @
                      field_errors ''price'' r_price @
                      unknown_errors [''id'', ''name'', ''price''] kvs
           in if errs \<noteq> [] then Invalid errs
              else make_instance m pf_id
                     \<lparr>pf_id = field_value r_id, pf_name = field_value r_name,
                      pf_price = field_value r_price\<rparr>)
      | _ \<Rightarrow> Invalid [(''_schema'', [''Invalid input type.''])])"

text \<open>\<^verbatim>\<open>jsonify(e.messages)\<close>, and the serialised entities.\<close>

definition messages :: "errors \<Rightarrow> json" where
  "messages errs = JObj (map (\<lambda>(k, ms). (k, JArr (map JStr ms))) errs)"

definition dump_user :: "User \<Rightarrow> json" where
  "dump_user u =
     JObj [(''address'', JStr (user_address u)), (''email'', JStr (user_email u)),
           (''id'', JInt (user_id u)), (''name'', JStr (user_name u))]"

definition dump_product :: "Product \<Rightarrow> json" where
  "dump_product p =
     JObj [(''id'', JInt (product_id p)), (''name'', JStr (product_name p)),
           (''price'', JFloat (product_price p))]"

text \<open>
  \<^verbatim>\<open>user_data['name']\<close> and \<^verbatim>\<open>'name' in user_data\<close>. A key is given by the
  selector of its field. A dict answers both; a model instance has neither
  \<^verbatim>\<open>__getitem__\<close> nor \<^verbatim>\<open>__contains__\<close>, and Python raises \<^verbatim>\<open>TypeError\<close>.
\<close>

definition subscript :: "'a loaded \<Rightarrow> ('a \<Rightarrow> 'b option) \<Rightarrow> exn + 'b" where
  "subscript d key =
     (case d of
        Instance x \<Rightarrow> Inl TypeError
      | Dict x \<Rightarrow> (case key x of None \<Rightarrow> Inl KeyError | Some v \<Rightarrow> Inr v))"

definition contains :: "'a loaded \<Rightarrow> ('a \<Rightarrow> 'b option) \<Rightarrow> exn + bool" where
  "contains d key =
     (case d of
        Instance x \<Rightarrow> Inl TypeError
      | Dict x \<Rightarrow> Inr (key x \<noteq> None))"

text \<open>\<^verbatim>\<open>if key in data: obj.attr = data[key]\<close> (lines 157-162 and 229-232).\<close>

definition assign :: "'a loaded \<Rightarrow> ('a \<Rightarrow> 'b option) \<Rightarrow> ('b \<Rightarrow> 'r \<Rightarrow> 'r) \<Rightarrow> 'r \<Rightarrow> exn + 'r" where
  "assign d key setter r =
     (case contains d key of
        Inl e \<Rightarrow> Inl e
      | Inr present \<Rightarrow>
          if present
          then (case subscript d key of Inl e \<Rightarrow> Inl e | Inr v \<Rightarrow> Inr (setter v r))
          else Inr r)"


section \<open>The store\<close>

text \<open>
  \<^verbatim>\<open>db.session.get(Model, id)\<close>. The id comes from the \<^verbatim>\<open>int\<close> converter of the
  route, which passes the natural numbers only. The SQLite driver binds a Python int as
  a signed 64-bit integer and raises \<^verbatim>\<open>OverflowError\<close> on a larger one; no handler
  catches it. Otherwise the result is the row with that primary key, if there is one.
\<close>

definition session_get :: "('r \<Rightarrow> int) \<Rightarrow> 'r list \<Rightarrow> nat \<Rightarrow> exn + 'r option" where
  "session_get pk rows i =
     (if 9223372036854775808 \<le> int i then Inl OverflowError
      else Inr (find (\<lambda>r. pk r = int i) rows))"

text \<open>
  The primary keys are \<^verbatim>\<open>Integer, primary_key=True\<close> columns of an SQLite database
  (line 16) without the \<^verbatim>\<open>AUTOINCREMENT\<close> option: a new row gets 1 in an empty table
  and one more than the largest key of the table otherwise.
\<close>

definition next_id :: "int list \<Rightarrow> int" where
  "next_id ids = (if ids = [] then 1 else Max (set ids) + 1)"

text \<open>
  \<^verbatim>\<open>db.session.add(new_user); db.session.commit()\<close>: \<^verbatim>\<open>name\<close> and \<^verbatim>\<open>email\<close> are
  \<^verbatim>\<open>unique=True\<close> (lines 41, 43), and the insert of a row that repeats one of them
  raises \<^verbatim>\<open>IntegrityError\<close>.
\<close>

definition insert_user :: "store \<Rightarrow> string \<Rightarrow> string \<Rightarrow> string \<Rightarrow> exn + User \<times> store" where
  "insert_user db n a e =
     (if n \<in> user_name ` set (users db) \<or> e \<in> user_email ` set (users db)
      then Inl IntegrityError
      else (let u = \<lparr>user_id = next_id (map user_id (users db)), user_name = n,
                      user_address = a, user_email = e\<rparr>
            in Inr (u, db\<lparr>users := users db @ [u]\<rparr>)))"

text \<open>No column of \<^verbatim>\<open>products\<close> is unique (lines 60-62): the insert always succeeds.\<close>

definition insert_product :: "store \<Rightarrow> string \<Rightarrow> rat \<Rightarrow> exn + Product \<times> store" where
  "insert_product db n p =
     (let r = \<lparr>product_id = next_id (map product_id (products db)), product_name = n,
                product_price = p\<rparr>
      in Inr (r, db\<lparr>products := products db @ [r]\<rparr>))"

text \<open>
  \<^verbatim>\<open>db.session.commit()\<close> after the attributes of a loaded row were set: the row is
  written back, and the unique columns are checked against the other rows.
\<close>

definition commit_user :: "store \<Rightarrow> User \<Rightarrow> exn + store" where
  "commit_user db u =
     (let others = filter (\<lambda>v. user_id v \<noteq> user_id u) (users db)
      in if user_name u \<in> user_name ` set others \<or> user_email u \<in> user_email ` set others
         then Inl IntegrityError
         else Inr (db\<lparr>users := map (\<lambda>v. if user_id v = user_id u then u else v) (users db)\<rparr>))"

definition commit_product :: "store \<Rightarrow> Product \<Rightarrow> exn + store" where
  "commit_product db p =
     Inr (db\<lparr>products := map (\<lambda>v. if product_id v = product_id p then p else v) (products db)\<rparr>)"

section \<open>User routes (lines 109-177)\<close>

text \<open>
  A handler takes the request (the path id, the JSON body) and the store, and gives the
  outcome and the store after the request. An exception that leaves the handler ends
  the request before any commit, and the session is discarded: the store is as before.
\<close>

definition get_users :: "store \<Rightarrow> outcome \<times> store" where
  "get_users db = (Reply 200 (JArr (map dump_user (users db))), db)"

definition get_user :: "nat \<Rightarrow> store \<Rightarrow> outcome \<times> store" where
  "get_user i db =
     (case session_get user_id (users db) i of
        Inl e \<Rightarrow> (Unhandled e, db)
      | Inr None \<Rightarrow> (Reply 404 (message ''User not found''), db)
      | Inr (Some user) \<Rightarrow> (Reply 200 (dump_user user), db))"

definition create_user :: "pylib \<Rightarrow> json \<Rightarrow> store \<Rightarrow> outcome \<times> store" where
  "create_user P body db =
     (case load_user P UserSchema_Meta False body of
        Invalid errs \<Rightarrow> (Reply 400 (messages errs), db)
      | Raised e \<Rightarrow> (Unhandled e, db)
      | Loaded user_data \<Rightarrow>
          (case subscript user_data f_name of
             Inl e \<Rightarrow> (Unhandled e, db)
           | Inr n \<Rightarrow>
          (case subscript user_data f_address of
             Inl e \<Rightarrow> (Unhandled e, db)
           | Inr a \<Rightarrow>
          (case subscript user_data f_email of
             Inl e \<Rightarrow> (Unhandled e, db)
           | Inr em \<Rightarrow>
          (case insert_user db n a em of
             Inl e \<Rightarrow>
               if e = IntegrityError
               then (Reply 409 (message ''User with this name or email already exists''), db)
               else (Unhandled e, db)
           | Inr (new_user, db') \<Rightarrow> (Reply 201 (dump_user new_user), db'))))))"

definition assign_user :: "user_fields loaded \<Rightarrow> User \<Rightarrow> exn + User" where
  "assign_user user_data user =
     (case assign user_data f_name (\<lambda>v u. u\<lparr>user_name := v\<rparr>) user of
        Inl e \<Rightarrow> Inl e
      | Inr u1 \<Rightarrow>
     (case assign user_data f_address (\<lambda>v u. u\<lparr>user_address := v\<rparr>) u1 of
        Inl e \<Rightarrow> Inl e
      | Inr u2 \<Rightarrow> assign user_data f_email (\<lambda>v u. u\<lparr>user_email := v\<rparr>) u2))"

definition update_user :: "pylib \<Rightarrow> nat \<Rightarrow> json \<Rightarrow> store \<Rightarrow> outcome \<times> store" where
  "update_user P i body db =
     (case session_get user_id (users db) i of
        Inl e \<Rightarrow> (Unhandled e, db)
      | Inr None \<Rightarrow> (Reply 404 (message ''Invalid user id''), db)
      | Inr (Some user) \<Rightarrow>
          (case load_user P UserSchema_Meta True body of
             Invalid errs \<Rightarrow> (Reply 400 (messages errs), db)
           | Raised e \<Rightarrow> (Unhandled e, db)
           | Loaded user_data \<Rightarrow>
               (case assign_user user_data user of
                  Inl e \<Rightarrow> (Unhandled e, db)
                | Inr user' \<Rightarrow>
                    (case commit_user db user' of
                       Inl e \<Rightarrow> (Unhandled e, db)
                     | Inr db' \<Rightarrow> (Reply 200 (dump_user user'), db')))))"

text \<open>The decimal digits of the id in the confirmation message (an f-string).\<close>

fun str_nat :: "nat \<Rightarrow> string" where
  "str_nat n =
     (if n < 10 then [char_of (48 + n)]
      else str_nat (n div 10) @ [char_of (48 + n mod 10)])"

definition delete_user :: "nat \<Rightarrow> store \<Rightarrow> outcome \<times> store" where
  "delete_user i db =
     (case session_get user_id (users db) i of
        Inl e \<Rightarrow> (Unhandled e, db)
      | Inr None \<Rightarrow> (Reply 404 (message ''User not found''), db)
      | Inr (Some user) \<Rightarrow>
          (Reply 200 (message (''Successfully deleted user '' @ str_nat i)),
           db\<lparr>users := filter (\<lambda>v. user_id v \<noteq> user_id user) (users db)\<rparr>))"

section \<open>Product routes (lines 182-247)\<close>

definition get_products :: "store \<Rightarrow> outcome \<times> store" where
  "get_products db = (Reply 200 (JArr (map dump_product (products db))), db)"

definition get_product :: "nat \<Rightarrow> store \<Rightarrow> outcome \<times> store" where
  "get_product i db =
     (case session_get product_id (products db) i of
        Inl e \<Rightarrow> (Unhandled e, db)
      | Inr None \<Rightarrow> (Reply 404 (message ''Product not found''), db)
      | Inr (Some product) \<Rightarrow> (Reply 200 (dump_product product), db))"

definition create_product :: "pylib \<Rightarrow> json \<Rightarrow> store \<Rightarrow> outcome \<times> store" where
  "create_product P body db =
     (case load_product P ProductSchema_Meta False body of
        Invalid errs \<Rightarrow> (Reply 400 (messages errs), db)
      | Raised e \<Rightarrow> (Unhandled e, db)
      | Loaded product_data \<Rightarrow>
          (case subscript product_data pf_name of
             Inl e \<Rightarrow> (Unhandled e, db)
           | Inr n \<Rightarrow>
          (case subscript product_data pf_price of
             Inl e \<Rightarrow> (Unhandled e, db)
           | Inr p \<Rightarrow>
          (case insert_product db n p of
             Inl e \<Rightarrow>
               if e = IntegrityError
               then (Reply 409 (message ''Product with this name already exists''), db)
               else (Unhandled e, db)
           | Inr (new_product, db') \<Rightarrow> (Reply 201 (dump_product new_product), db')))))"

definition assign_product :: "product_fields loaded \<Rightarrow> Product \<Rightarrow> exn + Product" where
  "assign_product product_data product =
     (case assign product_data pf_name (\<lambda>v r. r\<lparr>product_name := v\<rparr>) product of
        Inl e \<Rightarrow> Inl e
      | Inr p1 \<Rightarrow> assign product_data pf_price (\<lambda>v r. r\<lparr>product_price := v\<rparr>) p1)"

definition update_product :: "pylib \<Rightarrow> nat \<Rightarrow> json \<Rightarrow> store \<Rightarrow> outcome \<times> store" where
  "update_product P i body db =
     (case session_get product_id (products db) i of
        Inl e \<Rightarrow> (Unhandled e, db)
      | Inr None \<Rightarrow> (Reply 404 (message ''Invalid product id''), db)
      | Inr (Some product) \<Rightarrow>
          (case load_product P ProductSchema_Meta True body of
             Invalid errs \<Rightarrow> (Reply 400 (messages errs), db)
           | Raised e \<Rightarrow> (Unhandled e, db)
           | Loaded product_data \<Rightarrow>
               (case assign_product product_data product of
                  Inl e \<Rightarrow> (Unhandled e, db)
                | Inr product' \<Rightarrow>
                    (case commit_product db product' of
                       Inl e \<Rightarrow> (Unhandled e, db)
                     | Inr db' \<Rightarrow> (Reply 200 (dump_product product'), db')))))"

definition delete_product :: "nat \<Rightarrow> store \<Rightarrow> outcome \<times> store" where
  "delete_product i db =
     (case session_get product_id (products db) i of
        Inl e \<Rightarrow> (Unhandled e, db)
      | Inr None \<Rightarrow> (Reply 404 (message ''Product not found''), db)
      | Inr (Some product) \<Rightarrow>
          (Reply 200 (message (''Successfully deleted product '' @ str_nat i)),
           db\<lparr>products := filter (\<lambda>v. product_id v \<noteq> product_id product) (products db)\<rparr>))"

section \<open>Example data\<close>

text \<open>
  A library that refuses every string left to it; it stands for the parameter where a
  closed statement needs one.
\<close>

definition refusing :: pylib where
  "refusing = \<lparr>email_unicode = (\<lambda>s. False), int_of_str = (\<lambda>s. None),
               float_of_str = (\<lambda>s. None)\<rparr>"

definition ann :: User where
  "ann = \<lparr>user_id = 1, user_name = ''Ann'', user_address = ''1 Main St'',
          user_email = ''ann@example.com''\<rparr>"

definition bob :: User where
  "bob = \<lparr>user_id = 2, user_name = ''Bob'', user_address = ''2 Side St'',
          user_email = ''bob@example.com''\<rparr>"

definition pen :: Product where
  "pen = \<lparr>product_id = 1, product_name = ''Pen'', product_price = 3 / 2\<rparr>"

definition empty_db :: store where
  "empty_db = \<lparr>users = [], products = []\<rparr>"

definition shop :: store where
  "shop = \<lparr>users = [ann, bob], products = [pen]\<rparr>"

section \<open>What \<open>load\<close> returns, and what the handlers do with it\<close>

text \<open>
  With \<^verbatim>\<open>load_instance = True\<close> a payload that validates is never loaded as a dict.
  The handlers subscript the loaded object and test it for keys, so a request whose
  payload validates ends in an exception that no clause catches, and the store keeps
  its rows.
\<close>

lemma subscript_Instance: "subscript (Instance x) key = Inl TypeError"
  by (simp add: subscript_def)

lemma contains_Instance: "contains (Instance x) key = Inl TypeError"
  by (simp add: contains_def)

lemma make_instance_True:
  "load_instance m \<Longrightarrow> make_instance m pk data = Loaded d \<Longrightarrow> d = Instance data"
  by (auto simp: make_instance_def split: option.splits)

lemma load_user_Instance:
  "load_user P UserSchema_Meta partial body = Loaded d \<Longrightarrow> \<exists>x. d = Instance x"
  by (auto simp: load_user_def UserSchema_Meta_def Let_def make_instance_def
           split: json.splits if_splits option.splits)

lemma load_product_Instance:
  "load_product P ProductSchema_Meta partial body = Loaded d \<Longrightarrow> \<exists>x. d = Instance x"
  by (auto simp: load_product_def ProductSchema_Meta_def Let_def make_instance_def
           split: json.splits if_splits option.splits)

lemma create_user_store: "snd (create_user P body db) = db"
  by (auto simp: create_user_def subscript_Instance
           split: load_result.splits dest!: load_user_Instance)

lemma create_user_status:
  "status (fst (create_user P body db)) = 400 \<or> status (fst (create_user P body db)) = 500"
  by (auto simp: create_user_def subscript_Instance
           split: load_result.splits dest!: load_user_Instance)

lemma assign_user_Instance: "assign_user (Instance x) u = Inl TypeError"
  by (simp add: assign_user_def assign_def contains_Instance)

lemma assign_product_Instance: "assign_product (Instance x) u = Inl TypeError"
  by (simp add: assign_product_def assign_def contains_Instance)

lemma update_user_store: "snd (update_user P i body db) = db"
  by (auto simp: update_user_def assign_user_Instance
           split: sum.splits option.splits load_result.splits dest!: load_user_Instance)

lemma update_user_status: "status (fst (update_user P i body db)) \<in> {400, 404, 500}"
  by (auto simp: update_user_def assign_user_Instance
           split: sum.splits option.splits load_result.splits dest!: load_user_Instance)

lemma create_product_store: "snd (create_product P body db) = db"
  by (auto simp: create_product_def subscript_Instance
           split: load_result.splits dest!: load_product_Instance)

lemma update_product_store: "snd (update_product P i body db) = db"
  by (auto simp: update_product_def assign_product_Instance
           split: sum.splits option.splits load_result.splits dest!: load_product_Instance)

text \<open>An id from \<open>2\<^sup>6\<^sup>3\<close> on ends every handler that looks a row up, whatever the body.\<close>

lemma session_get_overflow:
  "9223372036854775808 \<le> int i \<Longrightarrow> session_get pk rows i = Inl OverflowError"
  by (simp add: session_get_def)

lemma session_get_missing:
  "int i < 9223372036854775808 \<Longrightarrow> find (\<lambda>r. pk r = int i) rows = None \<Longrightarrow>
     session_get pk rows i = Inr None"
  by (simp add: session_get_def)

lemma update_user_overflow:
  "9223372036854775808 \<le> int i \<Longrightarrow> update_user P i body db = (Unhandled OverflowError, db)"
  by (simp add: update_user_def session_get_overflow)

lemma update_product_overflow:
  "9223372036854775808 \<le> int i \<Longrightarrow> update_product P i body db = (Unhandled OverflowError, db)"
  by (simp add: update_product_def session_get_overflow)

section \<open>Partial validation reports present keys only\<close>

lemma deserialize_partial_errors:
  assumes "deserialize_field req True conv raw = Errors ms"
    and "\<And>v es. conv v = Inl es \<Longrightarrow> ''Missing data for required field.'' \<notin> set es"
  shows "raw \<noteq> None \<and> ''Missing data for required field.'' \<notin> set ms"
  using assms
  by (auto simp: deserialize_field_def split: option.splits json.splits sum.splits)

lemma string_field_msgs:
  "msg \<noteq> ''Missing data for required field.'' \<Longrightarrow> string_field lo hi msg v = Inl es \<Longrightarrow>
     ''Missing data for required field.'' \<notin> set es"
  by (auto simp: string_field_def split: json.splits if_splits)

lemma email_field_msgs:
  "email_field P v = Inl es \<Longrightarrow> ''Missing data for required field.'' \<notin> set es"
  by (auto simp: email_field_def split: json.splits if_splits)

lemma int_of_float_msgs:
  "int_of_float x = Inl es \<Longrightarrow> ''Missing data for required field.'' \<notin> set es"
  by (auto simp: int_of_float_def split: pyfloat.splits special.splits)

lemma integer_field_msgs:
  "integer_field P v = Inl es \<Longrightarrow> ''Missing data for required field.'' \<notin> set es"
  by (auto simp: integer_field_def split: json.splits option.splits dest: int_of_float_msgs)

lemma field_errors_partial:
  assumes "(k', ms) \<in> set (field_errors k (deserialize_field req True conv (map_of kvs k)))"
    and "\<And>v es. conv v = Inl es \<Longrightarrow> ''Missing data for required field.'' \<notin> set es"
  shows "k' \<in> fst ` set kvs \<and> ''Missing data for required field.'' \<notin> set ms"
proof -
  from assms(1) have k: "k' = k"
    and e: "deserialize_field req True conv (map_of kvs k) = Errors ms"
    by (auto simp: field_errors_def split: field_result.splits)
  from deserialize_partial_errors [OF e assms(2)]
  have "map_of kvs k \<noteq> None" and m: "''Missing data for required field.'' \<notin> set ms"
    by auto
  then have "k \<in> fst ` set kvs"
    by (auto dest: map_of_SomeD intro: rev_image_eqI)
  with k m show ?thesis by simp
qed

lemma unknown_errors_keys:
  "(k, ms) \<in> set (unknown_errors known kvs) \<Longrightarrow>
     k \<in> fst ` set kvs \<and> ''Missing data for required field.'' \<notin> set ms"
  by (auto simp: unknown_errors_def)

lemma load_user_partial_errors:
  assumes "load_user P m True (JObj kvs) = Invalid errs" and "(k, ms) \<in> set errs"
  shows "k \<in> fst ` set kvs \<and> ''Missing data for required field.'' \<notin> set ms"
proof -
  let ?name = "string_field 1 80 ''Length must be between 1 and 80.''"
  let ?address = "string_field 1 255 ''Length must be between 1 and 255.''"
  from assms consider
      (id) "(k, ms) \<in> set (field_errors ''id''
              (deserialize_field False True (integer_field P) (map_of kvs ''id'')))"
    | (name) "(k, ms) \<in> set (field_errors ''name''
              (deserialize_field True True ?name (map_of kvs ''name'')))"
    | (address) "(k, ms) \<in> set (field_errors ''address''
              (deserialize_field True True ?address (map_of kvs ''address'')))"
    | (email) "(k, ms) \<in> set (field_errors ''email''
              (deserialize_field True True (email_field P) (map_of kvs ''email'')))"
    | (unknown) "(k, ms) \<in> set (unknown_errors [''id'', ''name'', ''address'', ''email''] kvs)"
    by (auto simp: load_user_def Let_def make_instance_def split: if_splits option.splits)
  then show ?thesis
  proof cases
    case id
    then show ?thesis by (rule field_errors_partial) (rule integer_field_msgs)
  next
    case name
    then show ?thesis by (rule field_errors_partial) (erule string_field_msgs[rotated], simp)
  next
    case address
    then show ?thesis by (rule field_errors_partial) (erule string_field_msgs[rotated], simp)
  next
    case email
    then show ?thesis by (rule field_errors_partial) (rule email_field_msgs)
  next
    case unknown
    then show ?thesis by (rule unknown_errors_keys)
  qed
qed

section \<open>Creating a user (C1, C2, C3)\<close>

text \<open>
  C1. The claim: every payload that passes the validation of \<^verbatim>\<open>UserSchema\<close> is
  answered by POST /users with status 201 and the serialised user, whose id is a
  positive integer issued to no earlier user. On the code the payload below passes the
  validation and is loaded as a \<^verbatim>\<open>User\<close> instance; \<^verbatim>\<open>user_data['name']\<close>
  (line 131) raises \<^verbatim>\<open>TypeError\<close>, which neither \<^verbatim>\<open>except\<close> clause catches: the
  request ends with status 500 and no user is stored.
\<close>

theorem create_user_valid_payload_raises:
  "load_user P UserSchema_Meta False
     (JObj [(''name'', JStr ''Ann''), (''address'', JStr ''1 Main St''),
            (''email'', JStr ''ann@example.com'')]) =
     Loaded (Instance \<lparr>f_id = None, f_name = Some ''Ann'', f_address = Some ''1 Main St'',
                       f_email = Some ''ann@example.com''\<rparr>) \<and>
   create_user P
     (JObj [(''name'', JStr ''Ann''), (''address'', JStr ''1 Main St''),
            (''email'', JStr ''ann@example.com'')]) empty_db =
     (Unhandled TypeError, empty_db) \<and>
   status (Unhandled TypeError) = 500"
  by code_simp

text \<open>
  C2. The claim: POST /users followed by GET /users/\{id\} with the id returned by the
  create gives back the submitted name, address and email. On the code the create of
  a valid payload returns no id and stores nothing: afterwards GET /users/\{id\} is
  answered with 404 for every id below \<open>2\<^sup>6\<^sup>3\<close>, and ends in \<^verbatim>\<open>OverflowError\<close> for
  the others.
\<close>

theorem create_then_get_user_not_found:
  "create_user P
     (JObj [(''name'', JStr ''Bob''), (''address'', JStr ''2 Side St''),
            (''email'', JStr ''bob@example.com'')]) empty_db =
     (Unhandled TypeError, empty_db) \<and>
   get_user 1 empty_db = (Reply 404 (JObj [(''message'', JStr ''User not found'')]), empty_db) \<and>
   (\<forall>i. get_user i empty_db =
      (if int i < 9223372036854775808
       then (Reply 404 (JObj [(''message'', JStr ''User not found'')]), empty_db)
       else (Unhandled OverflowError, empty_db)))"
proof (intro conjI)
  show "create_user P
     (JObj [(''name'', JStr ''Bob''), (''address'', JStr ''2 Side St''),
            (''email'', JStr ''bob@example.com'')]) empty_db =
     (Unhandled TypeError, empty_db)"
    by code_simp
  show "get_user 1 empty_db =
          (Reply 404 (JObj [(''message'', JStr ''User not found'')]), empty_db)"
    by (simp add: get_user_def session_get_def empty_db_def message_def)
  show "\<forall>i. get_user i empty_db =
      (if int i < 9223372036854775808
       then (Reply 404 (JObj [(''message'', JStr ''User not found'')]), empty_db)
       else (Unhandled OverflowError, empty_db))"
    by (simp add: get_user_def session_get_def empty_db_def message_def)
qed

text \<open>
  C3. The claim: when the store holds a user with a given name or email, POST /users
  with a payload that repeats that name or that email is answered with 409, and the
  store is as before. On the code the store is as before, but the answer is the
  unhandled \<^verbatim>\<open>TypeError\<close> (status 500): the insert, and with it the
  \<^verbatim>\<open>IntegrityError\<close> clause of lines 139-141, is never reached.
\<close>

theorem create_user_duplicate_raises:
  "create_user P
     (JObj [(''name'', JStr ''Ann''), (''address'', JStr ''9 Elm Rd''),
            (''email'', JStr ''ann2@example.com'')]) shop =
     (Unhandled TypeError, shop) \<and>
   create_user P
     (JObj [(''name'', JStr ''Anna''), (''address'', JStr ''9 Elm Rd''),
            (''email'', JStr ''ann@example.com'')]) shop =
     (Unhandled TypeError, shop) \<and>
   status (Unhandled TypeError) \<noteq> 409"
  by code_simp

section \<open>Updating a user (C4, C6, C7)\<close>

text \<open>
  C4. The claim: for an existing user, PUT /users/\{id\} with the body
  \<^verbatim>\<open>{"address": "X"}\<close> is answered with 200 and sets that user's address to X. On
  the code \<^verbatim>\<open>'name' in user_data\<close> (line 157) raises \<^verbatim>\<open>TypeError\<close> on the loaded
  instance: the request ends with status 500 and the address is as before.
\<close>

theorem update_user_address_raises:
  "update_user P 1 (JObj [(''address'', JStr ''X'')]) shop = (Unhandled TypeError, shop) \<and>
   map_option user_address (find (\<lambda>u. user_id u = 1) (users shop)) = Some ''1 Main St''"
  by code_simp

text \<open>
  C6. For every existing user id and every payload, PUT /users/\{id\} validates only the
  fields that the payload holds: a 400 answer carries no "Missing data for required
  field." message and reports only keys of the payload (or \<^verbatim>\<open>_schema\<close>, when the
  payload is not an object), and a field absent from the payload has, in the stored
  user, the value it had before the request.
\<close>

theorem update_user_partial_validation:
  assumes "session_get user_id (users db) i = Inr (Some u)"
  shows "(\<forall>b. fst (update_user P i body db) = Reply 400 b \<longrightarrow>
            (\<exists>errs. b = messages errs \<and>
               (\<forall>(k, ms) \<in> set errs.
                  ''Missing data for required field.'' \<notin> set ms \<and>
                  (k \<in> set (json_keys body) \<or> k = ''_schema'')))) \<and>
         (\<exists>u'. session_get user_id (users (snd (update_user P i body db))) i = Inr (Some u') \<and>
            (''name'' \<notin> set (json_keys body) \<longrightarrow> user_name u' = user_name u) \<and>
            (''address'' \<notin> set (json_keys body) \<longrightarrow> user_address u' = user_address u) \<and>
            (''email'' \<notin> set (json_keys body) \<longrightarrow> user_email u' = user_email u))"
proof (intro conjI allI impI)
  fix b
  assume r: "fst (update_user P i body db) = Reply 400 b"
  then obtain errs where l: "load_user P UserSchema_Meta True body = Invalid errs"
    and b: "b = messages errs"
    using assms
    by (auto simp: update_user_def assign_user_Instance
             split: load_result.splits dest!: load_user_Instance)
  have "\<forall>(k, ms) \<in> set errs.
          ''Missing data for required field.'' \<notin> set ms \<and>
          (k \<in> set (json_keys body) \<or> k = ''_schema'')"
  proof (cases body)
    case (JObj kvs)
    with l load_user_partial_errors show ?thesis by fastforce
  qed (use l in \<open>auto simp: load_user_def\<close>)
  with b show "\<exists>errs. b = messages errs \<and>
               (\<forall>(k, ms) \<in> set errs.
                  ''Missing data for required field.'' \<notin> set ms \<and>
                  (k \<in> set (json_keys body) \<or> k = ''_schema''))"
    by blast
next
  show "\<exists>u'. session_get user_id (users (snd (update_user P i body db))) i = Inr (Some u') \<and>
            (''name'' \<notin> set (json_keys body) \<longrightarrow> user_name u' = user_name u) \<and>
            (''address'' \<notin> set (json_keys body) \<longrightarrow> user_address u' = user_address u) \<and>
            (''email'' \<notin> set (json_keys body) \<longrightarrow> user_email u' = user_email u)"
    using assms by (simp add: update_user_store)
qed

theorem update_user_partial_validation_witness:
  "session_get user_id (users shop) 1 = Inr (Some ann) \<and>
   fst (update_user refusing 1 (JObj [(''address'', JStr [])]) shop) =
     Reply 400 (messages [(''address'', [''Length must be between 1 and 255.''])]) \<and>
   (\<exists>errs. messages [(''address'', [''Length must be between 1 and 255.''])] = messages errs \<and>
      list_all (\<lambda>(k, ms). ''Missing data for required field.'' \<notin> set ms \<and>
                  (k \<in> set (json_keys (JObj [(''address'', JStr [])])) \<or> k = ''_schema'')) errs) \<and>
   (\<exists>u'. session_get user_id
            (users (snd (update_user refusing 1 (JObj [(''address'', JStr [])]) shop))) 1
            = Inr (Some u') \<and>
      user_name u' = ''Ann'' \<and> user_email u' = ''ann@example.com'')"
proof -
  let ?B = "JObj [(''address'', JStr [])]"
  have h: "session_get user_id (users shop) 1 = Inr (Some ann)"
    by (simp add: session_get_def shop_def ann_def)
  have e: "fst (update_user refusing 1 ?B shop) =
     Reply 400 (messages [(''address'', [''Length must be between 1 and 255.''])])"
    by code_simp
  note t = update_user_partial_validation [OF h, of refusing ?B]
  from t e have a: "\<exists>errs. messages [(''address'', [''Length must be between 1 and 255.''])] =
        messages errs \<and>
      list_all (\<lambda>(k, ms). ''Missing data for required field.'' \<notin> set ms \<and>
                  (k \<in> set (json_keys ?B) \<or> k = ''_schema'')) errs"
    unfolding list_all_iff by blast
  from t have b: "\<exists>u'. session_get user_id (users (snd (update_user refusing 1 ?B shop))) 1 =
        Inr (Some u') \<and>
      user_name u' = ''Ann'' \<and> user_email u' = ''ann@example.com''"
    by (auto simp: ann_def)
  from h e a b show ?thesis by blast
qed

text \<open>
  C7. The claim: every answer of PUT /users/\{id\} has status 200, 400 or 404. On the
  code a payload that validates, here one that takes the name of another user, ends in
  the unhandled \<^verbatim>\<open>TypeError\<close>, which is status 500 (and not 409). Were the
  payload loaded as a dict, the commit of line 164 would raise \<^verbatim>\<open>IntegrityError\<close>
  on the repeated name, and \<^verbatim>\<open>update_user\<close> has no clause for it either.
\<close>

theorem update_user_name_collision_raises:
  "update_user P 1 (JObj [(''name'', JStr ''Bob'')]) shop = (Unhandled TypeError, shop) \<and>
   status (fst (update_user P 1 (JObj [(''name'', JStr ''Bob'')]) shop)) = 500 \<and>
   commit_user shop (ann\<lparr>user_name := ''Bob''\<rparr>) = Inl IntegrityError"
  by code_simp

section \<open>Reading a user that is not there (C8)\<close>

text \<open>
  C8. The claim: for every id with no matching stored user, GET /users/\{id\} is
  answered with status 404 and the body \<^verbatim>\<open>{"message": "User not found"}\<close>, and the
  store is unchanged. It fails at the id \<open>2\<^sup>6\<^sup>3\<close>, which no stored user has: the lookup
  raises \<^verbatim>\<open>OverflowError\<close> and the answer is status 500.
\<close>

theorem get_user_overflow_counterexample:
  "find (\<lambda>u. user_id u = int 9223372036854775808) (users shop) = None \<and>
   get_user 9223372036854775808 shop = (Unhandled OverflowError, shop) \<and>
   status (Unhandled OverflowError) = 500"
  by (simp add: get_user_def session_get_def shop_def ann_def bob_def)

text \<open>
  C8 as amended: for every id below \<open>2\<^sup>6\<^sup>3\<close> with no matching stored user,
  GET /users/\{id\} is answered with status 404 and the body
  \<^verbatim>\<open>{"message": "User not found"}\<close>, and the store is unchanged.
\<close>

theorem get_user_not_found:
  "int i < 9223372036854775808 \<Longrightarrow> find (\<lambda>u. user_id u = int i) (users db) = None \<Longrightarrow>
     get_user i db = (Reply 404 (JObj [(''message'', JStr ''User not found'')]), db)"
  by (simp add: get_user_def session_get_def message_def)

theorem get_user_not_found_witness:
  "int 7 < 9223372036854775808 \<and> find (\<lambda>u. user_id u = int 7) (users shop) = None \<and>
   get_user 7 shop = (Reply 404 (JObj [(''message'', JStr ''User not found'')]), shop)"
proof -
  have h1: "int 7 < 9223372036854775808" by simp
  have h2: "find (\<lambda>u. user_id u = int 7) (users shop) = None"
    by (simp add: shop_def ann_def bob_def)
  from get_user_not_found [OF h1 h2] h1 h2 show ?thesis by simp
qed

section \<open>Products (C5, C9)\<close>

text \<open>
  C5. The claim: every stored product has a price of at least 0.01; POST /products
  with price 0 is answered with 400 and creates nothing, and an otherwise valid payload
  with price 0.01 succeeds with 201. On the code the payload with price 0 is refused
  with 400, but the payload with price 0.01 passes the validation, is loaded as a
  \<^verbatim>\<open>Product\<close> instance, and \<^verbatim>\<open>product_data['name']\<close> (line 204) raises
  \<^verbatim>\<open>TypeError\<close>: status 500, and no product is stored.
\<close>

theorem create_product_min_price_raises:
  "create_product P (JObj [(''name'', JStr ''Pen''), (''price'', JFloat (1 / 100))]) empty_db =
     (Unhandled TypeError, empty_db) \<and>
   create_product P (JObj [(''name'', JStr ''Pen''), (''price'', JInt 0)]) empty_db =
     (Reply 400 (JObj [(''price'', JArr [JStr ''Must be greater than or equal to 0.01.''])]),
      empty_db)"
  by code_simp

text \<open>
  C9. The claim: when the store holds a product with a given name, POST /products with
  a valid payload that repeats the name succeeds with 201 and creates a second product.
  On the code the request ends in the unhandled \<^verbatim>\<open>TypeError\<close> (status 500, not 409),
  and the table is as before.
\<close>

theorem create_product_same_name_raises:
  "create_product P (JObj [(''name'', JStr ''Pen''), (''price'', JInt 2)]) shop =
     (Unhandled TypeError, shop) \<and>
   products shop = [pen]"
  by code_simp

section \<open>The two wordings of a missing id (C10)\<close>

text \<open>
  C10. The claim: for every id with no matching row, PUT /users/\{id\} is answered with
  404 and the body \<^verbatim>\<open>{"message": "Invalid user id"}\<close>, and PUT /products/\{id\} with
  404 and \<^verbatim>\<open>{"message": "Invalid product id"}\<close>, while GET and DELETE answer the same
  missing id with "User not found" and "Product not found". It fails at the id \<open>2\<^sup>6\<^sup>3\<close>,
  which no row has: the lookup raises \<^verbatim>\<open>OverflowError\<close> before the body is loaded, and
  both PUT handlers answer with status 500.
\<close>

theorem update_overflow_counterexample:
  "find (\<lambda>u. user_id u = int 9223372036854775808) (users shop) = None \<and>
   find (\<lambda>p. product_id p = int 9223372036854775808) (products shop) = None \<and>
   update_user refusing 9223372036854775808 (JObj [(''address'', JStr ''X'')]) shop =
     (Unhandled OverflowError, shop) \<and>
   update_product refusing 9223372036854775808 (JObj [(''price'', JInt 2)]) shop =
     (Unhandled OverflowError, shop) \<and>
   status (Unhandled OverflowError) = 500"
  by (simp add: update_user_overflow update_product_overflow shop_def ann_def bob_def pen_def)

text \<open>
  C10 as amended: for every id below \<open>2\<^sup>6\<^sup>3\<close> with no matching row,
  PUT /users/\{id\} is answered with 404 and the body \<^verbatim>\<open>{"message": "Invalid user id"}\<close>,
  and PUT /products/\{id\} with 404 and \<^verbatim>\<open>{"message": "Invalid product id"}\<close>, while GET
  and DELETE answer the same missing id with "User not found" and "Product not found".
\<close>

theorem update_missing_id_message:
  assumes "int i < 9223372036854775808"
    and "find (\<lambda>u. user_id u = int i) (users db) = None"
    and "int j < 9223372036854775808"
    and "find (\<lambda>p. product_id p = int j) (products db) = None"
  shows "update_user P i body db =
           (Reply 404 (JObj [(''message'', JStr ''Invalid user id'')]), db) \<and>
         update_product P j body' db =
           (Reply 404 (JObj [(''message'', JStr ''Invalid product id'')]), db) \<and>
         get_user i db = (Reply 404 (JObj [(''message'', JStr ''User not found'')]), db) \<and>
         delete_user i db = (Reply 404 (JObj [(''message'', JStr ''User not found'')]), db) \<and>
         get_product j db = (Reply 404 (JObj [(''message'', JStr ''Product not found'')]), db) \<and>
         delete_product j db =
           (Reply 404 (JObj [(''message'', JStr ''Product not found'')]), db)"
  using assms
  by (simp add: update_user_def update_product_def get_user_def delete_user_def
        get_product_def delete_product_def session_get_def message_def)

theorem update_missing_id_message_witness:
  "int 7 < 9223372036854775808 \<and> find (\<lambda>u. user_id u = int 7) (users shop) = None \<and>
   int 9 < 9223372036854775808 \<and> find (\<lambda>p. product_id p = int 9) (products shop) = None \<and>
   update_user refusing 7 (JObj [(''address'', JStr ''X'')]) shop =
     (Reply 404 (JObj [(''message'', JStr ''Invalid user id'')]), shop) \<and>
   update_product refusing 9 (JObj [(''price'', JInt 2)]) shop =
     (Reply 404 (JObj [(''message'', JStr ''Invalid product id'')]), shop) \<and>
   get_user 7 shop = (Reply 404 (JObj [(''message'', JStr ''User not found'')]), shop) \<and>
   delete_user 7 shop = (Reply 404 (JObj [(''message'', JStr ''User not found'')]), shop) \<and>
   get_product 9 shop = (Reply 404 (JObj [(''message'', JStr ''Product not found'')]), shop) \<and>
   delete_product 9 shop = (Reply 404 (JObj [(''message'', JStr ''Product not found'')]), shop)"
proof -
  have h1: "int 7 < 9223372036854775808" by simp
  have h2: "find (\<lambda>u. user_id u = int 7) (users shop) = None"
    by (simp add: shop_def ann_def bob_def)
  have h3: "int 9 < 9223372036854775808" by simp
  have h4: "find (\<lambda>p. product_id p = int 9) (products shop) = None"
    by (simp add: shop_def pen_def)
  from update_missing_id_message [OF h1 h2 h3 h4, where P = refusing] h1 h2 h3 h4
  show ?thesis by simp
qed

end
